theory Spec2Isabelle
  imports Main "HOL-Library.AList"
begin

section \<open>Data model of lxd/networks.go\<close>

text \<open>
  A Go \<open>map[string]string\<close> is an association list read through \<open>map_of\<close>.
  Go iterates a map in no fixed order; the loops of the source that copy one map into
  another are order independent, and are written with \<open>AList.merge\<close>, whose result
  is \<open>map_of dst ++ map_of src\<close>.
\<close>

type_synonym config = "(string \<times> string) list"

definition cfg_get :: "config \<Rightarrow> string \<Rightarrow> string" where
  \<comment> \<open>\<open>m[k]\<close>: the zero value \<open>""\<close> when the key is absent\<close>
  "cfg_get m k = (case map_of m k of None \<Rightarrow> [] | Some v \<Rightarrow> v)"

definition cfg_has :: "config \<Rightarrow> string \<Rightarrow> bool" where
  \<comment> \<open>\<open>_, ok := m[k]\<close>\<close>
  "cfg_has m k = (map_of m k \<noteq> None)"

definition cfg_assign_all :: "config \<Rightarrow> config \<Rightarrow> config" where
  \<comment> \<open>\<open>for key, value := range src { dst[key] = value }\<close>\<close>
  "cfg_assign_all dst src = AList.merge dst src"

definition cfg_delete_all :: "string list \<Rightarrow> config \<Rightarrow> config" where
  \<comment> \<open>\<open>for _, key := range keys { delete(m, key) }\<close>\<close>
  "cfg_delete_all ks m = fold AList.delete ks m"

definition StringInSlice :: "string \<Rightarrow> string list \<Rightarrow> bool" where
  "StringInSlice key xs = (key \<in> set xs)"

datatype err = ErrNoSuchObject | ErrAlreadyDefined | ErrNotExist | ErrOther string

datatype status = Pending | Created | Errored

text \<open>One network of the cluster database: the row of table \<open>networks\<close>, its global
  config row (node id 0) and its per-node config rows.\<close>

record netrow =
  nw_type :: string
  nw_description :: string
  nw_status :: status
  nw_global :: config
  nw_nodes :: "(string \<times> config) list"

text \<open>\<open>api.Network\<close>, as \<open>GetNetworkInAnyState\<close> and \<open>doNetworkGet\<close> return it.\<close>

record api_network =
  n_name :: string
  n_description :: string
  n_type :: string
  n_managed :: bool
  n_status :: "status option"
  n_config :: config
  n_usedby :: "string list"
  n_locations :: "string list"

datatype dbop =
    OpGetNetworkInAnyState | OpCreatePendingNetwork | OpCreateNetwork | OpGetNetworkID
  | OpNetworkNodeConfigs | OpGetLocalNodeName | OpCreateNetworkConfig | OpNetworkCreated
  | OpNetworkErrored | OpDeleteNetwork | OpGetNonPendingNetworks

text \<open>What the handlers do to the world outside the process, in the order they do it:
  writes to the cluster database, calls of the network driver, calls to cluster peers
  and the removal of the network's directory.\<close>

datatype event =
    DbCreatePendingNetwork string string config
  | DbCreateNetwork string config
  | DbCreateNetworkConfig string config
  | DbNetworkCreated string
  | DbNetworkErrored string
  | DbDeleteNetwork string
  | DrvValidate string config
  | DrvCreate string bool
  | DrvStart string
  | DrvDelete string bool
  | DrvUpdate string config string bool
  | PeerCreateNetwork string string config
  | PeerDeleteNetwork string string
  | RemoveAll string
  | LoggerError string string

type_synonym ref = nat

text \<open>The state a handler runs on. \<open>heap\<close> holds the Go maps that the handler
  reaches through more than one variable: a struct copy \<open>nodeReq := req\<close> copies the
  reference \<open>req.Config\<close>, not the map.\<close>

record world =
  db :: "(string \<times> netrow) list"
  heap :: "ref \<Rightarrow> config"
  log :: "event list"

text \<open>The collaborators that are not in \<open>lxd/networks.go\<close>: the constant
  \<open>db.NodeSpecificNetworkConfig\<close>, the cluster membership, the host, and the outcome of
  every call that can fail for a reason outside this file (\<open>None\<close>: the call succeeds).\<close>

record env =
  NodeSpecificNetworkConfig :: "string list"
  localNodeName :: string
  memberCount :: "err + nat"
  clusterEnabled :: "err + bool"
  hostInterfaces :: "err + string list"
  db_fault :: "dbop \<Rightarrow> string \<Rightarrow> err option"
  ValidateName :: "string \<Rightarrow> string \<Rightarrow> err option"
  FillConfig :: "string \<Rightarrow> config \<Rightarrow> err + config"
  load_fault :: "string \<Rightarrow> err option"
  validate_fault :: "string \<Rightarrow> config \<Rightarrow> err option"
  create_fault :: "string \<Rightarrow> bool \<Rightarrow> err option"
  start_fault :: "string \<Rightarrow> err option"
  delete_fault :: "string \<Rightarrow> bool \<Rightarrow> err option"
  update_fault :: "string \<Rightarrow> config \<Rightarrow> err option"
  isUsed :: "string \<Rightarrow> err + bool"
  notifier_fault :: "err option"
  peers :: "string list"
  getServer_fault :: "string \<Rightarrow> err option"
  peer_create_fault :: "string \<Rightarrow> config \<Rightarrow> err option"
  peer_delete_fault :: "string \<Rightarrow> err option"

text \<open>\<open>api.NetworkLease\<close>.\<close>

record lease =
  l_hostname :: string
  l_address :: string
  l_hwaddr :: string
  l_type :: string
  l_location :: string

text \<open>An instance, as far as the handlers read it: name, project, location, expanded
  devices (device name to device config) and local config.\<close>

record inst =
  i_name :: string
  i_project :: string
  i_location :: string
  i_devices :: "(string \<times> config) list"
  i_localConfig :: config

record profile =
  p_name :: string
  p_project :: string

type_synonym etag = "string \<times> bool \<times> string \<times> string \<times> config"

text \<open>The host and the packages that the read handlers consult: network interfaces
  (\<open>Some loopback\<close> when the interface exists), the file system, Open vSwitch, the
  instances and profiles, the NIC type resolution, the driver's MAC canonicalizer
  \<open>network.GetMACSlice\<close>, the peers that are alive with the leases they report, and the
  hash of \<open>util.EtagHash\<close>.\<close>

record host =
  InterfaceByName :: "string \<Rightarrow> bool option"
  PathExists :: "string \<Rightarrow> bool"
  BridgeExists :: "string \<Rightarrow> bool"
  LoadFromAllProjects :: "err + inst list"
  IsInUseByInstance :: "inst \<Rightarrow> string \<Rightarrow> err + bool"
  GetProfiles :: "err + profile list"
  IsInUseByProfile :: "profile \<Rightarrow> string \<Rightarrow> err + bool"
  LoadByProject :: "string \<Rightarrow> err + inst list"
  NICType :: "config \<Rightarrow> err + string"
  ReadFile :: "string \<Rightarrow> err + string"
  GetMACSlice :: "string \<Rightarrow> string list"
  alivePeers :: "string list"
  GetNetworkLeases :: "string \<Rightarrow> string \<Rightarrow> err + lease list"
  EtagHash :: "etag \<Rightarrow> string"

definition emit :: "event \<Rightarrow> world \<Rightarrow> world" where
  "emit e w = w\<lparr>log := log w @ [e]\<rparr>"

section \<open>The cluster database (package db)\<close>

text \<open>Modelled from the spec: package \<open>db\<close> is not in \<open>lxd/networks.go\<close>. The
  operations follow section 4.2 of the specification (Network Store). A network's id is
  its name. Each operation can also fail with the generic transactional failure that
  \<open>db_fault\<close> gives it; a failed operation changes nothing.\<close>

definition merged_config :: "env \<Rightarrow> netrow \<Rightarrow> config" where
  \<comment> \<open>the global row joined with the row of the local node\<close>
  "merged_config env r =
     cfg_assign_all (nw_global r)
       (case map_of (nw_nodes r) (localNodeName env) of None \<Rightarrow> [] | Some c \<Rightarrow> c)"

definition to_api :: "env \<Rightarrow> string \<Rightarrow> netrow \<Rightarrow> api_network" where
  "to_api env name r =
     \<lparr>n_name = name, n_description = nw_description r, n_type = nw_type r, n_managed = True,
      n_status = Some (nw_status r), n_config = merged_config env r, n_usedby = [],
      n_locations = map fst (nw_nodes r)\<rparr>"

definition GetNetworkInAnyState :: "env \<Rightarrow> world \<Rightarrow> string \<Rightarrow> err + api_network" where
  "GetNetworkInAnyState env w name =
     (case db_fault env OpGetNetworkInAnyState name of
        Some e \<Rightarrow> Inl e
      | None \<Rightarrow>
          (case map_of (db w) name of
             None \<Rightarrow> Inl ErrNoSuchObject
           | Some r \<Rightarrow> Inr (to_api env name r)))"

definition CreatePendingNetwork ::
  "env \<Rightarrow> string \<Rightarrow> string \<Rightarrow> string \<Rightarrow> config \<Rightarrow> world \<Rightarrow> err + world" where
  "CreatePendingNetwork env node name typ conf w =
     (case db_fault env OpCreatePendingNetwork name of
        Some e \<Rightarrow> Inl e
      | None \<Rightarrow>
          (case map_of (db w) name of
             None \<Rightarrow>
               Inr (emit (DbCreatePendingNetwork node name conf)
                 (w\<lparr>db := AList.update name
                    \<lparr>nw_type = typ, nw_description = [], nw_status = Pending,
                     nw_global = [], nw_nodes = [(node, conf)]\<rparr> (db w)\<rparr>))
           | Some r \<Rightarrow>
               if map_of (nw_nodes r) node \<noteq> None then Inl ErrAlreadyDefined
               else Inr (emit (DbCreatePendingNetwork node name conf)
                 (w\<lparr>db := AList.update name
                    (r\<lparr>nw_nodes := nw_nodes r @ [(node, conf)]\<rparr>) (db w)\<rparr>))))"

definition CreateNetwork ::
  "env \<Rightarrow> string \<Rightarrow> string \<Rightarrow> string \<Rightarrow> config \<Rightarrow> world \<Rightarrow> err + world" where
  "CreateNetwork env name descr typ conf w =
     (case db_fault env OpCreateNetwork name of
        Some e \<Rightarrow> Inl e
      | None \<Rightarrow>
          (case map_of (db w) name of
             Some r \<Rightarrow> Inl (ErrOther ''UNIQUE constraint failed: networks.name'')
           | None \<Rightarrow>
               Inr (emit (DbCreateNetwork name conf)
                 (w\<lparr>db := AList.update name
                    \<lparr>nw_type = typ, nw_description = descr, nw_status = Created,
                     nw_global = conf, nw_nodes = [(localNodeName env, [])]\<rparr> (db w)\<rparr>))))"

definition GetNetworkID :: "env \<Rightarrow> world \<Rightarrow> string \<Rightarrow> err + string" where
  "GetNetworkID env w name =
     (case db_fault env OpGetNetworkID name of
        Some e \<Rightarrow> Inl e
      | None \<Rightarrow> (case map_of (db w) name of None \<Rightarrow> Inl ErrNoSuchObject | Some r \<Rightarrow> Inr name))"

definition NetworkNodeConfigs :: "env \<Rightarrow> world \<Rightarrow> string \<Rightarrow> err + (string \<times> config) list" where
  "NetworkNodeConfigs env w networkID =
     (case db_fault env OpNetworkNodeConfigs networkID of
        Some e \<Rightarrow> Inl e
      | None \<Rightarrow>
          (case map_of (db w) networkID of
             None \<Rightarrow> Inl ErrNoSuchObject
           | Some r \<Rightarrow> Inr (nw_nodes r)))"

definition GetLocalNodeName :: "env \<Rightarrow> err + string" where
  "GetLocalNodeName env =
     (case db_fault env OpGetLocalNodeName [] of Some e \<Rightarrow> Inl e | None \<Rightarrow> Inr (localNodeName env))"

definition CreateNetworkConfig :: "env \<Rightarrow> string \<Rightarrow> config \<Rightarrow> world \<Rightarrow> err + world" where
  \<comment> \<open>\<open>tx.CreateNetworkConfig(networkID, 0, config)\<close>: the global row\<close>
  "CreateNetworkConfig env networkID conf w =
     (case db_fault env OpCreateNetworkConfig networkID of
        Some e \<Rightarrow> Inl e
      | None \<Rightarrow>
          (case map_of (db w) networkID of
             None \<Rightarrow> Inl ErrNoSuchObject
           | Some r \<Rightarrow>
               Inr (emit (DbCreateNetworkConfig networkID conf)
                 (w\<lparr>db := AList.update networkID (r\<lparr>nw_global := conf\<rparr>) (db w)\<rparr>))))"

definition set_status :: "dbop \<Rightarrow> event \<Rightarrow> status \<Rightarrow> env \<Rightarrow> string \<Rightarrow> world \<Rightarrow> err + world" where
  "set_status op ev st env name w =
     (case db_fault env op name of
        Some e \<Rightarrow> Inl e
      | None \<Rightarrow>
          (case map_of (db w) name of
             None \<Rightarrow> Inl ErrNoSuchObject
           | Some r \<Rightarrow>
               Inr (emit ev (w\<lparr>db := AList.update name (r\<lparr>nw_status := st\<rparr>) (db w)\<rparr>))))"

definition NetworkCreated :: "env \<Rightarrow> string \<Rightarrow> world \<Rightarrow> err + world" where
  "NetworkCreated env name w = set_status OpNetworkCreated (DbNetworkCreated name) Created env name w"

definition NetworkErrored :: "env \<Rightarrow> string \<Rightarrow> world \<Rightarrow> err + world" where
  "NetworkErrored env name w = set_status OpNetworkErrored (DbNetworkErrored name) Errored env name w"

definition DeleteNetwork :: "env \<Rightarrow> string \<Rightarrow> world \<Rightarrow> err + world" where
  "DeleteNetwork env name w =
     (case db_fault env OpDeleteNetwork name of
        Some e \<Rightarrow> Inl e
      | None \<Rightarrow>
          (case map_of (db w) name of
             None \<Rightarrow> Inl ErrNoSuchObject
           | Some r \<Rightarrow> Inr (emit (DbDeleteNetwork name) (w\<lparr>db := AList.delete name (db w)\<rparr>))))"

definition GetNonPendingNetworks :: "env \<Rightarrow> world \<Rightarrow> err + string list" where
  "GetNonPendingNetworks env w =
     (case db_fault env OpGetNonPendingNetworks [] of
        Some e \<Rightarrow> Inl e
      | None \<Rightarrow> Inr (map fst (filter (\<lambda>(name, r). nw_status r \<noteq> Pending) (db w))))"

definition ignore_err :: "world \<Rightarrow> err + world \<Rightarrow> world" where
  \<comment> \<open>a call whose error the source drops\<close>
  "ignore_err w r = (case r of Inl e \<Rightarrow> w | Inr w' \<Rightarrow> w')"

section \<open>The network driver and the cluster notifier\<close>

text \<open>Modelled from the spec: package \<open>network\<close> is not in \<open>lxd/networks.go\<close>. A driver
  is loaded from the database record (section 4.3 of the specification); the comment at
  \<open>networksPostCluster\<close> says that \<open>LoadByName\<close> fails with not-found for a network that is
  not yet marked created. A driver call is logged when it is made; whether it fails is
  given by the environment. \<open>Delete\<close> gets the cluster notification flag to decide whether
  to touch the database (section 9 of the specification), and the comments at
  \<open>doNetworksCreate\<close> and \<open>networksPost\<close> say which way: with \<open>false\<close> the database
  record is removed, with \<open>true\<close> it is not.\<close>

record driver =
  d_name :: string
  d_type :: string
  d_config :: config

definition LoadByName :: "env \<Rightarrow> world \<Rightarrow> string \<Rightarrow> err + driver" where
  "LoadByName env w name =
     (case map_of (db w) name of
        None \<Rightarrow> Inl ErrNoSuchObject
      | Some r \<Rightarrow>
          if nw_status r = Pending then Inl ErrNoSuchObject
          else (case load_fault env name of
                  Some e \<Rightarrow> Inl e
                | None \<Rightarrow> Inr \<lparr>d_name = name, d_type = nw_type r, d_config = merged_config env r\<rparr>))"

definition drv_Validate :: "env \<Rightarrow> driver \<Rightarrow> config \<Rightarrow> world \<Rightarrow> err option \<times> world" where
  "drv_Validate env n conf w = (validate_fault env (d_name n) conf, emit (DrvValidate (d_name n) conf) w)"

definition drv_Create :: "env \<Rightarrow> driver \<Rightarrow> bool \<Rightarrow> world \<Rightarrow> err option \<times> world" where
  "drv_Create env n clusterNotification w =
     (create_fault env (d_name n) clusterNotification, emit (DrvCreate (d_name n) clusterNotification) w)"

definition drv_Start :: "env \<Rightarrow> driver \<Rightarrow> world \<Rightarrow> err option \<times> world" where
  "drv_Start env n w = (start_fault env (d_name n), emit (DrvStart (d_name n)) w)"

definition drv_Delete :: "env \<Rightarrow> driver \<Rightarrow> bool \<Rightarrow> world \<Rightarrow> err option \<times> world" where
  "drv_Delete env n clusterNotification w =
     (let w1 = emit (DrvDelete (d_name n) clusterNotification) w in
      case delete_fault env (d_name n) clusterNotification of
        Some e \<Rightarrow> (Some e, w1)
      | None \<Rightarrow>
          if \<not> clusterNotification then
            (case DeleteNetwork env (d_name n) w1 of
               Inl e \<Rightarrow> (Some e, w1)
             | Inr w2 \<Rightarrow> (None, w2))
          else (None, w1))"

text \<open>Modelled from the spec: \<open>cluster.NewNotifier\<close> is not in \<open>lxd/networks.go\<close>. The
  notifier invokes the closure against every peer and fails the fan-out when a closure
  failed (section 4.4 of the specification); the peers are taken in the order of
  \<open>peers\<close>, and a peer is named by its server name.\<close>

fun notifier :: "(string \<Rightarrow> 's \<Rightarrow> err option \<times> 's) \<Rightarrow> string list \<Rightarrow> 's \<Rightarrow> err option \<times> 's" where
  "notifier hook [] w = (None, w)"
| "notifier hook (p # ps) w =
     (case hook p w of
        (r, w1) \<Rightarrow>
          (case notifier hook ps w1 of
             (rs, w2) \<Rightarrow> ((case r of Some e \<Rightarrow> Some e | None \<Rightarrow> rs), w2)))"

section \<open>POST /networks\<close>

record networks_post =
  np_name :: string
  np_description :: string
  np_type :: string
  np_config :: ref

definition doNetworksCreate :: "env \<Rightarrow> networks_post \<Rightarrow> bool \<Rightarrow> world \<Rightarrow> err option \<times> world" where
  "doNetworksCreate env req clusterNotification w =
     (case LoadByName env w (np_name req) of
        Inl e \<Rightarrow> (Some e, w)
      | Inr n \<Rightarrow>
          (case drv_Validate env n (d_config n) w of
             (Some e, w1) \<Rightarrow> (Some e, w1)
           | (None, w1) \<Rightarrow>
               (case drv_Create env n clusterNotification w1 of
                  (Some e, w2) \<Rightarrow> (Some e, w2)
                | (None, w2) \<Rightarrow>
                    (case drv_Start env n w2 of
                       (Some e, w3) \<Rightarrow> (Some e, snd (drv_Delete env n clusterNotification w3))
                     | (None, w3) \<Rightarrow> (None, w3)))))"

definition node_config :: "(string \<times> config) list \<Rightarrow> string \<Rightarrow> config" where
  \<comment> \<open>\<open>configs[node]\<close>: the nil map when the node has no entry\<close>
  "node_config configs node = (case map_of configs node of None \<Rightarrow> [] | Some c \<Rightarrow> c)"

definition assign_node_config :: "networks_post \<Rightarrow> config \<Rightarrow> world \<Rightarrow> world" where
  \<comment> \<open>\<open>for key, value := range src { nodeReq.Config[key] = value }\<close>, on the map that
     \<open>nodeReq.Config\<close> refers to\<close>
  "assign_node_config nodeReq src w =
     w\<lparr>heap := (heap w)(np_config nodeReq := cfg_assign_all (heap w (np_config nodeReq)) src)\<rparr>"

definition promote_tx ::
  "env \<Rightarrow> networks_post \<Rightarrow> world \<Rightarrow> err + ((string \<times> config) list \<times> string \<times> world)" where
  \<comment> \<open>the transaction of \<open>networksPostCluster\<close>; the insert is its last step\<close>
  "promote_tx env req w =
     (case GetNetworkID env w (np_name req) of
        Inl e \<Rightarrow> Inl e
      | Inr networkID \<Rightarrow>
          (case NetworkNodeConfigs env w networkID of
             Inl e \<Rightarrow> Inl e
           | Inr configs \<Rightarrow>
               (case GetLocalNodeName env of
                  Inl e \<Rightarrow> Inl e
                | Inr nodeName \<Rightarrow>
                    (case CreateNetworkConfig env networkID (heap w (np_config req)) w of
                       Inl e \<Rightarrow> Inl e
                     | Inr w1 \<Rightarrow> Inr (configs, nodeName, w1)))))"

definition create_hook ::
  "env \<Rightarrow> networks_post \<Rightarrow> (string \<times> config) list \<Rightarrow> string \<Rightarrow> world \<Rightarrow> err option \<times> world" where
  \<comment> \<open>the closure given to the notifier: \<open>nodeReq := req\<close> copies the struct, so
     \<open>nodeReq.Config\<close> is the map of \<open>req.Config\<close>\<close>
  "create_hook env req configs server w =
     (case getServer_fault env server of
        Some e \<Rightarrow> (Some e, w)
      | None \<Rightarrow>
          (let nodeReq = req;
               w1 = assign_node_config nodeReq (node_config configs server) w;
               sent = heap w1 (np_config nodeReq)
           in (peer_create_fault env server sent,
               emit (PeerCreateNetwork server (np_name nodeReq) sent) w1)))"

definition revert_errored :: "env \<Rightarrow> networks_post \<Rightarrow> world \<Rightarrow> world" where
  \<comment> \<open>the revert step of \<open>networksPostCluster\<close>; its error is dropped\<close>
  "revert_errored env req w = ignore_err w (NetworkErrored env (np_name req) w)"

definition networksPostCluster :: "env \<Rightarrow> networks_post \<Rightarrow> world \<Rightarrow> err option \<times> world" where
  "networksPostCluster env req w =
     (if list_ex (\<lambda>key. StringInSlice key (NodeSpecificNetworkConfig env))
           (map fst (heap w (np_config req)))
      then (Some (ErrOther ''Config key is node-specific''), w)
      else
        (case (case GetNetworkInAnyState env w (np_name req) of
                 Inl e \<Rightarrow> if e \<noteq> ErrNoSuchObject then Some e else None
               | Inr netInfo \<Rightarrow>
                   if np_type req \<noteq> n_type netInfo
                   then Some (ErrOther ''Requested network type does not match type in existing database record'')
                   else None) of
           Some e \<Rightarrow> (Some e, w)
         | None \<Rightarrow>
             (case FillConfig env (np_type req) (heap w (np_config req)) of
                Inl e \<Rightarrow> (Some e, w)
              | Inr filled \<Rightarrow>
                  (let w0 = w\<lparr>heap := (heap w)(np_config req := filled)\<rparr> in
                   case promote_tx env req w0 of
                     Inl e \<Rightarrow>
                       (if e = ErrNoSuchObject
                        then (Some (ErrOther ''Network not pending on any node (use --target <node> first)''), w0)
                        else (Some e, w0))
                   | Inr (configs, nodeName, w1) \<Rightarrow>
                       (let nodeReq = req;
                            w2 = assign_node_config nodeReq (node_config configs nodeName) w1
                        in case notifier_fault env of
                             Some e \<Rightarrow> (Some e, w2)
                           | None \<Rightarrow>
                               (case NetworkCreated env (np_name req) w2 of
                                  Inl e \<Rightarrow> (Some e, revert_errored env req w2)
                                | Inr w3 \<Rightarrow>
                                    (case doNetworksCreate env nodeReq False w3 of
                                       (Some e, w4) \<Rightarrow> (Some e, revert_errored env req w4)
                                     | (None, w4) \<Rightarrow>
                                         (case notifier (create_hook env req configs) (peers env) w4 of
                                            (Some e, w5) \<Rightarrow> (Some e, revert_errored env req w5)
                                          | (None, w5) \<Rightarrow> (None, w5)))))))))"

text \<open>Modelled from the spec: \<open>networkGetInterfaces\<close> is not in \<open>lxd/networks.go\<close>; it
  lists the union of the managed network names and the host interface names
  (section 4.2 of the specification, \<open>listInterfaces\<close>).\<close>

definition networkGetInterfaces :: "env \<Rightarrow> world \<Rightarrow> err + string list" where
  "networkGetInterfaces env w =
     (case hostInterfaces env of
        Inl e \<Rightarrow> Inl e
      | Inr ifaces \<Rightarrow>
          Inr (map fst (db w) @ filter (\<lambda>i. \<not> StringInSlice i (map fst (db w))) ifaces))"

datatype 'a response =
    SyncResponse 'a
  | SyncResponseLocation string
  | EmptySyncResponse
  | BadRequest string
  | NotFound
  | Conflict
  | PreconditionFailed
  | InternalError err
  | SmartError err
  | ForwardedResponse

record networks_body =
  nb_name :: string
  nb_description :: string
  nb_type :: string
  nb_config :: "config option"

record post_request =
  pr_body :: "networks_body option"
  pr_isClusterNotification :: bool
  pr_target :: string

definition revert_delete :: "env \<Rightarrow> networks_post \<Rightarrow> world \<Rightarrow> world" where
  \<comment> \<open>the revert step of the single-node create; its error is dropped\<close>
  "revert_delete env req w = ignore_err w (DeleteNetwork env (np_name req) w)"

definition networksPost_single :: "env \<Rightarrow> networks_post \<Rightarrow> world \<Rightarrow> unit response \<times> world" where
  \<comment> \<open>\<open>networksPost\<close> from the comment "Non-clustered network creation" on\<close>
  "networksPost_single env req w =
     (case FillConfig env (np_type req) (heap w (np_config req)) of
        Inl e \<Rightarrow> (SmartError e, w)
      | Inr filled \<Rightarrow>
          (let w0 = w\<lparr>heap := (heap w)(np_config req := filled)\<rparr> in
           case networkGetInterfaces env w0 of
             Inl e \<Rightarrow> (InternalError e, w0)
           | Inr networks \<Rightarrow>
               if StringInSlice (np_name req) networks
               then (BadRequest ''The network already exists'', w0)
               else
                 (case CreateNetwork env (np_name req) (np_description req) (np_type req)
                         (heap w0 (np_config req)) w0 of
                    Inl e \<Rightarrow> (SmartError e, w0)
                  | Inr w1 \<Rightarrow>
                      (case doNetworksCreate env req False w1 of
                         (Some e, w2) \<Rightarrow> (SmartError e, revert_delete env req w2)
                       | (None, w2) \<Rightarrow>
                           (SyncResponseLocation (''/1.0/networks/'' @ np_name req), w2)))))"

definition networksPost_target :: "env \<Rightarrow> string \<Rightarrow> networks_post \<Rightarrow> world \<Rightarrow> unit response \<times> world" where
  \<comment> \<open>\<open>networksPost\<close> under \<open>if targetNode != ""\<close>: define the node's network without
     creating it\<close>
  "networksPost_target env targetNode req w0 =
     (if list_ex (\<lambda>key. \<not> StringInSlice key (NodeSpecificNetworkConfig env))
           (map fst (heap w0 (np_config req)))
      then (BadRequest ''Config key may not be used as node-specific key'', w0)
      else
        (case CreatePendingNetwork env targetNode (np_name req) (np_type req)
                (heap w0 (np_config req)) w0 of
           Inl e \<Rightarrow>
             (if e = ErrAlreadyDefined
              then (BadRequest ''The network is already defined on node'', w0)
              else (SmartError e, w0))
         | Inr w1 \<Rightarrow> (SyncResponseLocation (''/1.0/networks/'' @ np_name req), w1)))"

definition networksPost_dispatch :: "env \<Rightarrow> post_request \<Rightarrow> networks_post \<Rightarrow> world \<Rightarrow> unit response \<times> world" where
  \<comment> \<open>\<open>networksPost\<close> from \<open>if isClusterNotification(r)\<close> on, for the request \<open>req\<close> that
     passed the sanity checks\<close>
  "networksPost_dispatch env r req w0 =
     (if pr_isClusterNotification r then
        (case doNetworksCreate env req True w0 of
           (Some e, w1) \<Rightarrow> (SmartError e, w1)
         | (None, w1) \<Rightarrow> (SyncResponseLocation (''/1.0/networks/'' @ np_name req), w1))
      else if pr_target r \<noteq> [] then networksPost_target env (pr_target r) req w0
      else
        (case memberCount env of
           Inl e \<Rightarrow> (SmartError e, w0)
         | Inr count \<Rightarrow>
             if count > 1 then
               (case networksPostCluster env req w0 of
                  (Some e, w1) \<Rightarrow> (SmartError e, w1)
                | (None, w1) \<Rightarrow> (SyncResponseLocation (''/1.0/networks/'' @ np_name req), w1))
             else networksPost_single env req w0))"

definition post_req_of :: "networks_body \<Rightarrow> networks_post" where
  \<comment> \<open>the decoded request after \<open>req.Type\<close> got its default; its config map is at
     reference 0\<close>
  "post_req_of b =
     \<lparr>np_name = nb_name b, np_description = nb_description b,
      np_type = (if nb_type b = [] then ''bridge'' else nb_type b), np_config = 0\<rparr>"

definition post_world :: "networks_body \<Rightarrow> world \<Rightarrow> world" where
  \<comment> \<open>the decoded config map (the empty map when \<open>req.Config == nil\<close>) at reference 0\<close>
  "post_world b w = w\<lparr>heap := (heap w)(0 := (case nb_config b of None \<Rightarrow> [] | Some c \<Rightarrow> c))\<rparr>"

definition networksPost :: "env \<Rightarrow> post_request \<Rightarrow> world \<Rightarrow> unit response \<times> world" where
  "networksPost env r w =
     (case pr_body r of
        None \<Rightarrow> (BadRequest ''invalid JSON'', w)
      | Some b \<Rightarrow>
          if nb_name b = [] then (BadRequest ''No name provided'', w)
          else
            (let req = post_req_of b;
                 w0 = post_world b w
             in case ValidateName env (np_name req) (np_type req) of
                  Some e \<Rightarrow> (BadRequest ''invalid name'', w0)
                | None \<Rightarrow>
                    if np_type req \<notin> {''bridge'', ''macvlan'', ''sriov''}
                    then (BadRequest ''Unrecognised network type'', w0)
                    else networksPost_dispatch env r req w0))"

section \<open>GET /networks/{name}\<close>

definition instance_uri :: "inst \<Rightarrow> string" where
  "instance_uri i =
     ''/1.0/instances/'' @ i_name i @
     (if i_project i \<noteq> ''default'' then ''?project='' @ i_project i else [])"

definition profile_uri :: "profile \<Rightarrow> string" where
  "profile_uri p =
     ''/1.0/profiles/'' @ p_name p @
     (if p_project p \<noteq> ''default'' then ''?project='' @ p_project p else [])"

fun instances_usedby :: "host \<Rightarrow> string \<Rightarrow> inst list \<Rightarrow> string list \<Rightarrow> err + string list" where
  "instances_usedby h name [] usedBy = Inr usedBy"
| "instances_usedby h name (i # insts) usedBy =
     (case IsInUseByInstance h i name of
        Inl e \<Rightarrow> Inl e
      | Inr inUse \<Rightarrow>
          instances_usedby h name insts (if inUse then usedBy @ [instance_uri i] else usedBy))"

fun profiles_usedby :: "host \<Rightarrow> string \<Rightarrow> profile list \<Rightarrow> string list \<Rightarrow> err + string list" where
  "profiles_usedby h name [] usedBy = Inr usedBy"
| "profiles_usedby h name (p # ps) usedBy =
     (case IsInUseByProfile h p name of
        Inl e \<Rightarrow> Inl e
      | Inr inUse \<Rightarrow>
          profiles_usedby h name ps (if inUse then usedBy @ [profile_uri p] else usedBy))"

definition resolve_type :: "host \<Rightarrow> bool option \<Rightarrow> api_network option \<Rightarrow> api_network \<Rightarrow> api_network" where
  \<comment> \<open>"Set the device type as needed"\<close>
  "resolve_type h osInfo dbInfo n =
     (if osInfo = Some True then n\<lparr>n_type := ''loopback''\<rparr>
      else case dbInfo of
        Some i \<Rightarrow>
          n\<lparr>n_managed := True, n_description := n_description i, n_config := n_config i,
            n_type := n_type i\<rparr>
      | None \<Rightarrow>
          if PathExists h (''/sys/class/net/'' @ n_name n @ ''/bridge'') then n\<lparr>n_type := ''bridge''\<rparr>
          else if PathExists h (''/proc/net/vlan/'' @ n_name n) then n\<lparr>n_type := ''vlan''\<rparr>
          else if PathExists h (''/sys/class/net/'' @ n_name n @ ''/device'') then n\<lparr>n_type := ''physical''\<rparr>
          else if PathExists h (''/sys/class/net/'' @ n_name n @ ''/bonding'') then n\<lparr>n_type := ''bond''\<rparr>
          else if BridgeExists h (n_name n) then n\<lparr>n_type := ''bridge''\<rparr>
          else n\<lparr>n_type := ''unknown''\<rparr>)"

definition doNetworkGet :: "env \<Rightarrow> host \<Rightarrow> world \<Rightarrow> string \<Rightarrow> err + api_network" where
  "doNetworkGet env h w name =
     (if take 4 name = ''veth'' then Inl ErrNotExist
      else
        (let osInfo = InterfaceByName h name;
             dbInfo = (case GetNetworkInAnyState env w name of Inl e \<Rightarrow> None | Inr i \<Rightarrow> Some i)
         in if osInfo = None \<and> dbInfo = None then Inl ErrNotExist
            else
              (let n0 = \<lparr>n_name = name, n_description = [], n_type = [], n_managed = False,
                         n_status = None, n_config = [], n_usedby = [], n_locations = []\<rparr>;
                   n1 = resolve_type h osInfo dbInfo n0;
                   fin = (\<lambda>n. case dbInfo of
                                 None \<Rightarrow> n
                               | Some i \<Rightarrow> n\<lparr>n_status := n_status i, n_locations := n_locations i\<rparr>)
               in if n_type n1 \<noteq> ''loopback'' then
                    (case LoadFromAllProjects h of
                       Inl e \<Rightarrow> Inl e
                     | Inr insts \<Rightarrow>
                         (case instances_usedby h name insts (n_usedby n1) of
                            Inl e \<Rightarrow> Inl e
                          | Inr u1 \<Rightarrow>
                              (case GetProfiles h of
                                 Inl e \<Rightarrow> Inl e
                               | Inr profiles \<Rightarrow>
                                   (case profiles_usedby h name profiles u1 of
                                      Inl e \<Rightarrow> Inl e
                                    | Inr u2 \<Rightarrow> Inr (fin (n1\<lparr>n_usedby := u2\<rparr>))))))
                  else Inr (fin n1))))"

text \<open>Modelled from the spec: \<open>forwardedResponseIfTargetIsRemote\<close> is not in
  \<open>lxd/networks.go\<close>; a request whose target is set and is not the local node is forwarded
  to that node (section 4.6 of the specification, Routing).\<close>

definition forwardedResponseIfTargetIsRemote :: "env \<Rightarrow> string \<Rightarrow> bool" where
  "forwardedResponseIfTargetIsRemote env targetNode =
     (targetNode \<noteq> [] \<and> targetNode \<noteq> localNodeName env)"

definition etag_of :: "api_network \<Rightarrow> etag" where
  \<comment> \<open>\<open>[]interface{}{n.Name, n.Managed, n.Type, n.Description, n.Config}\<close>\<close>
  "etag_of n = (n_name n, n_managed n, n_type n, n_description n, n_config n)"

definition strip_node_specific :: "env \<Rightarrow> string \<Rightarrow> bool \<Rightarrow> api_network \<Rightarrow> api_network" where
  \<comment> \<open>"If no target node is specified and the daemon is clustered, we omit the
     node-specific fields"\<close>
  "strip_node_specific env targetNode clustered n =
     (if targetNode = [] \<and> clustered
      then n\<lparr>n_config := cfg_delete_all (NodeSpecificNetworkConfig env) (n_config n)\<rparr>
      else n)"

record get_request =
  gr_name :: string
  gr_target :: string

definition networkGet :: "env \<Rightarrow> host \<Rightarrow> get_request \<Rightarrow> world \<Rightarrow> (api_network \<times> etag) response" where
  "networkGet env h r w =
     (if forwardedResponseIfTargetIsRemote env (gr_target r) then ForwardedResponse
      else
        (case doNetworkGet env h w (gr_name r) of
           Inl e \<Rightarrow> SmartError e
         | Inr n \<Rightarrow>
             (case clusterEnabled env of
                Inl e \<Rightarrow> SmartError e
              | Inr clustered \<Rightarrow>
                  (let n1 = strip_node_specific env (gr_target r) clustered n
                   in SyncResponse (n1, etag_of n1)))))"

section \<open>PUT and PATCH /networks/{name}\<close>

text \<open>Modelled from the spec: \<open>util.EtagCheck\<close> is not in \<open>lxd/networks.go\<close>. The client
  echoes the ETag in the request (\<open>None\<close>: the request carries none, and nothing is
  compared); a value that is not the hash of the server's tuple is a mismatch
  (section 4.6 of the specification, ETag).\<close>

definition EtagCheck :: "host \<Rightarrow> string option \<Rightarrow> etag \<Rightarrow> err option" where
  "EtagCheck h ifMatch data =
     (case ifMatch of
        None \<Rightarrow> None
      | Some m \<Rightarrow> if EtagHash h data \<noteq> m then Some (ErrOther ''ETag does not match'') else None)"

datatype http_method = MethodPut | MethodPatch

record network_put =
  put_description :: string
  put_config :: "config option"

record put_request =
  ur_name :: string
  ur_target :: string
  ur_ifMatch :: "string option"
  ur_body :: "network_put option"
  ur_method :: http_method
  ur_isClusterNotification :: bool

definition drv_Update :: "env \<Rightarrow> driver \<Rightarrow> config \<Rightarrow> string \<Rightarrow> bool \<Rightarrow> world \<Rightarrow> err option \<times> world" where
  \<comment> \<open>\<open>n.Update(req, targetNode, clusterNotification)\<close>: the call is logged with the
     config it is given; what the driver stores is the driver's\<close>
  "drv_Update env n conf targetNode clusterNotification w =
     (update_fault env (d_name n) conf,
      emit (DrvUpdate (d_name n) conf targetNode clusterNotification) w)"

definition keep_node_specific :: "env \<Rightarrow> config \<Rightarrow> config \<Rightarrow> config" where
  \<comment> \<open>\<open>for k, v := range n.Config() { if StringInSlice(k, NodeSpecific) { req.Config[k] = v } }\<close>\<close>
  "keep_node_specific env reqConfig current =
     cfg_assign_all reqConfig
       (filter (\<lambda>(k, v). StringInSlice k (NodeSpecificNetworkConfig env)) current)"

definition fill_missing :: "config \<Rightarrow> config \<Rightarrow> config" where
  \<comment> \<open>\<open>for k, v := range n.Config() { _, ok := req.Config[k]; if !ok { req.Config[k] = v } }\<close>\<close>
  "fill_missing reqConfig current =
     fold (\<lambda>(k, v) m. if cfg_has m k then m else AList.update k v m) current reqConfig"

definition update_config :: "env \<Rightarrow> driver \<Rightarrow> config \<Rightarrow> string \<Rightarrow> http_method \<Rightarrow> bool \<Rightarrow> config" where
  \<comment> \<open>the config that \<open>doNetworkUpdate\<close> validates and hands to the driver\<close>
  "update_config env n reqConfig targetNode httpMethod clustered =
     (if targetNode = [] \<and> httpMethod \<noteq> MethodPatch \<and> clustered
      then keep_node_specific env reqConfig (d_config n)
      else if httpMethod = MethodPatch then fill_missing reqConfig (d_config n)
      else reqConfig)"

definition doNetworkUpdate ::
  "env \<Rightarrow> string \<Rightarrow> network_put \<Rightarrow> string \<Rightarrow> bool \<Rightarrow> http_method \<Rightarrow> bool \<Rightarrow> world
     \<Rightarrow> unit response \<times> world" where
  "doNetworkUpdate env name req targetNode clusterNotification httpMethod clustered w =
     (case LoadByName env w name of
        Inl e \<Rightarrow> (NotFound, w)
      | Inr n \<Rightarrow>
          (let reqConfig = (case put_config req of None \<Rightarrow> [] | Some c \<Rightarrow> c);
               conf = update_config env n reqConfig targetNode httpMethod clustered
           in case validate_fault env name conf of
                Some e \<Rightarrow> (BadRequest ''invalid config'', w)
              | None \<Rightarrow>
                  (case drv_Update env n conf targetNode clusterNotification w of
                     (Some e, w1) \<Rightarrow> (SmartError e, w1)
                   | (None, w1) \<Rightarrow> (EmptySyncResponse, w1))))"

definition scope_violation :: "env \<Rightarrow> string \<Rightarrow> config \<Rightarrow> config \<Rightarrow> string option" where
  \<comment> \<open>the two loops of \<open>networkPut\<close> under \<open>if clustered\<close>: the message of the BadRequest
     they return, if they return one\<close>
  "scope_violation env targetNode reqConfig stored =
     (if targetNode = [] then
        (if list_ex (\<lambda>(k, v). StringInSlice k (NodeSpecificNetworkConfig env)) reqConfig
         then Some ''Config key is node-specific'' else None)
      else
        (if list_ex (\<lambda>(k, v). \<not> StringInSlice k (NodeSpecificNetworkConfig env) \<and> cfg_get stored k \<noteq> v)
              reqConfig
         then Some ''Config key may not be used as node-specific key'' else None))"

definition networkPut :: "env \<Rightarrow> host \<Rightarrow> put_request \<Rightarrow> world \<Rightarrow> unit response \<times> world" where
  "networkPut env h r w =
     (if forwardedResponseIfTargetIsRemote env (ur_target r) then (ForwardedResponse, w)
      else
        (case GetNetworkInAnyState env w (ur_name r) of
           Inl e \<Rightarrow> (SmartError e, w)
         | Inr dbInfo0 \<Rightarrow>
             (case clusterEnabled env of
                Inl e \<Rightarrow> (SmartError e, w)
              | Inr clustered \<Rightarrow>
                  (let dbInfo = strip_node_specific env (ur_target r) clustered dbInfo0 in
                   case EtagCheck h (ur_ifMatch r) (etag_of dbInfo) of
                     Some e \<Rightarrow> (PreconditionFailed, w)
                   | None \<Rightarrow>
                       (case ur_body r of
                          None \<Rightarrow> (BadRequest ''invalid JSON'', w)
                        | Some req \<Rightarrow>
                            (case (if clustered
                                   then scope_violation env (ur_target r)
                                          (case put_config req of None \<Rightarrow> [] | Some c \<Rightarrow> c)
                                          (n_config dbInfo)
                                   else None) of
                               Some msg \<Rightarrow> (BadRequest msg, w)
                             | None \<Rightarrow>
                                 doNetworkUpdate env (ur_name r) req (ur_target r)
                                   (ur_isClusterNotification r) (ur_method r) clustered w))))))"

definition networkPatch :: "env \<Rightarrow> host \<Rightarrow> put_request \<Rightarrow> world \<Rightarrow> unit response \<times> world" where
  "networkPatch env h r w = networkPut env h r w"

section \<open>DELETE /networks/{name}\<close>

record delete_request =
  dr_name :: string
  dr_isClusterNotification :: bool

definition delete_hook :: "env \<Rightarrow> string \<Rightarrow> string \<Rightarrow> world \<Rightarrow> err option \<times> world" where
  \<comment> \<open>\<open>client.DeleteNetwork(name)\<close> on one peer\<close>
  "delete_hook env name server w = (peer_delete_fault env server, emit (PeerDeleteNetwork server name) w)"

definition delete_sanity :: "env \<Rightarrow> driver \<Rightarrow> world \<Rightarrow> unit response option \<times> world" where
  \<comment> \<open>the branch of \<open>networkDelete\<close> for a request that is not a cluster notification:
     \<open>Some\<close> is the response it returns early\<close>
  "delete_sanity env n w =
     (case isUsed env (d_name n) of
        Inl e \<Rightarrow> (Some (SmartError e), w)
      | Inr inUse \<Rightarrow>
          if inUse then (Some (BadRequest ''The network is currently in use''), w)
          else
            (case notifier_fault env of
               Some e \<Rightarrow> (Some (SmartError e), w)
             | None \<Rightarrow>
                 (case notifier (delete_hook env (d_name n)) (peers env) w of
                    (Some e, w1) \<Rightarrow> (Some (SmartError e), w1)
                  | (None, w1) \<Rightarrow> (None, w1))))"

definition networkDelete :: "env \<Rightarrow> host \<Rightarrow> delete_request \<Rightarrow> world \<Rightarrow> unit response \<times> world" where
  "networkDelete env h r w =
     (case GetNetworkInAnyState env w (dr_name r) of
        Inl e \<Rightarrow> (SmartError e, w)
      | Inr dbNetwork \<Rightarrow>
          if n_status dbNetwork = Some Pending then
            (case DeleteNetwork env (dr_name r) w of
               Inl e \<Rightarrow> (SmartError e, w)
             | Inr w1 \<Rightarrow> (EmptySyncResponse, w1))
          else
            (case LoadByName env w (dr_name r) of
               Inl e \<Rightarrow> (NotFound, w)
             | Inr n \<Rightarrow>
                 (case (if dr_isClusterNotification r then (None, w) else delete_sanity env n w) of
                    (Some resp, w1) \<Rightarrow> (resp, w1)
                  | (None, w1) \<Rightarrow>
                      (case drv_Delete env n (dr_isClusterNotification r) w1 of
                         (Some e, w2) \<Rightarrow> (SmartError e, w2)
                       | (None, w2) \<Rightarrow>
                           (EmptySyncResponse,
                            if PathExists h (''networks/'' @ d_name n)
                            then emit (RemoveAll (''networks/'' @ d_name n)) w2 else w2)))))"

section \<open>GET /networks/{name}/leases\<close>

definition isSpace :: "char \<Rightarrow> bool" where
  \<comment> \<open>the ASCII white space of \<open>strings.Fields\<close>: tab, newline, vertical tab, form feed,
     carriage return and space (a lease file of dnsmasq is ASCII)\<close>
  "isSpace c = (c \<in> {CHR 0x09, CHR 0x0A, CHR 0x0B, CHR 0x0C, CHR 0x0D, CHR '' ''})"

fun fields_from :: "string \<Rightarrow> string \<Rightarrow> string list" where
  \<comment> \<open>the fields of the rest of the line, given the field read so far\<close>
  "fields_from cur [] = (if cur = [] then [] else [cur])"
| "fields_from cur (c # cs) =
     (if isSpace c then (if cur = [] then fields_from [] cs else cur # fields_from [] cs)
      else fields_from (cur @ [c]) cs)"

definition Fields :: "string \<Rightarrow> string list" where
  \<comment> \<open>\<open>strings.Fields\<close>\<close>
  "Fields s = fields_from [] s"

fun Split_nl :: "string \<Rightarrow> string list" where
  \<comment> \<open>\<open>strings.Split(s, "\n")\<close>\<close>
  "Split_nl [] = [[]]"
| "Split_nl (c # cs) =
     (if c = CHR 0x0A then [] # Split_nl cs
      else (case Split_nl cs of [] \<Rightarrow> [[c]] | x # xs \<Rightarrow> (c # x) # xs))"

fun Join :: "string list \<Rightarrow> string \<Rightarrow> string" where
  \<comment> \<open>\<open>strings.Join\<close>\<close>
  "Join [] sep = []"
| "Join [x] sep = x"
| "Join (x # y # ys) sep = x @ sep @ Join (y # ys) sep"

datatype panic = SliceBoundsOutOfRange

definition static_device ::
  "host \<Rightarrow> string \<Rightarrow> inst \<Rightarrow> string \<times> config \<Rightarrow> lease list \<times> string list \<Rightarrow> lease list \<times> string list" where
  \<comment> \<open>the body of the loop over \<open>inst.ExpandedDevices()\<close>, on \<open>(leases, projectMacs)\<close>\<close>
  "static_device h name i kd acc =
     (case kd of (k, dev) \<Rightarrow>
        if cfg_get dev ''type'' \<noteq> ''nic'' then acc
        else if NICType h dev \<noteq> Inr ''bridged'' then acc
        else
          (let dev1 = (if cfg_get dev ''network'' \<noteq> []
                       then AList.update ''parent'' (cfg_get dev ''network'') dev else dev)
           in if cfg_get dev1 ''parent'' \<noteq> name then acc
              else
                (let dev2 = (if cfg_get dev1 ''hwaddr'' = []
                             then AList.update ''hwaddr''
                                    (cfg_get (i_localConfig i) (''volatile.'' @ k @ ''.hwaddr'')) dev1
                             else dev1);
                     projectMacs = (if cfg_get dev2 ''hwaddr'' \<noteq> []
                                    then snd acc @ [cfg_get dev2 ''hwaddr''] else snd acc);
                     leases4 = (if cfg_get dev2 ''ipv4.address'' \<noteq> []
                                then fst acc @
                                  [\<lparr>l_hostname = i_name i, l_address = cfg_get dev2 ''ipv4.address'',
                                    l_hwaddr = cfg_get dev2 ''hwaddr'', l_type = ''static'',
                                    l_location = i_location i\<rparr>]
                                else fst acc);
                     leases6 = (if cfg_get dev2 ''ipv6.address'' \<noteq> []
                                then leases4 @
                                  [\<lparr>l_hostname = i_name i, l_address = cfg_get dev2 ''ipv6.address'',
                                    l_hwaddr = cfg_get dev2 ''hwaddr'', l_type = ''static'',
                                    l_location = i_location i\<rparr>]
                                else leases4)
                 in (leases6, projectMacs))))"

definition static_leases :: "host \<Rightarrow> string \<Rightarrow> inst list \<Rightarrow> lease list \<times> string list" where
  \<comment> \<open>the loop over the instances of the project\<close>
  "static_leases h name insts =
     fold (\<lambda>i acc. fold (static_device h name i) (i_devices i) acc) insts ([], [])"

definition lease_mac :: "host \<Rightarrow> string list \<Rightarrow> panic + string" where
  \<comment> \<open>"Parse the MAC", for a line of at least five fields. A Go slice expression with a
     negative bound panics.\<close>
  "lease_mac h flds =
     (let mac = GetMACSlice h (flds ! 1);
          macStr = Join mac '':''
      in if length macStr < 17 \<and> flds ! 4 \<noteq> [] then
           (if length (flds ! 4) < 17 then Inl SliceBoundsOutOfRange
            else Inr (drop (length (flds ! 4) - 17) (flds ! 4)))
         else Inr macStr)"

fun dynamic_leases :: "host \<Rightarrow> string \<Rightarrow> string list \<Rightarrow> lease list \<Rightarrow> panic + lease list" where
  \<comment> \<open>the loop over the lines of the lease file\<close>
  "dynamic_leases h serverName [] leases = Inr leases"
| "dynamic_leases h serverName (line # rest) leases =
     (let flds = Fields line in
      if length flds \<ge> 5 then
        (case lease_mac h flds of
           Inl p \<Rightarrow> Inl p
         | Inr macStr \<Rightarrow>
             if list_ex (\<lambda>entry. l_hwaddr entry = macStr \<and> l_address entry = flds ! 2) leases
             then dynamic_leases h serverName rest leases
             else dynamic_leases h serverName rest
                    (leases @
                      [\<lparr>l_hostname = flds ! 3, l_address = flds ! 2, l_hwaddr = macStr,
                        l_type = ''dynamic'', l_location = serverName\<rparr>]))
      else dynamic_leases h serverName rest leases)"

definition leases_hook :: "host \<Rightarrow> string \<Rightarrow> string \<Rightarrow> lease list \<Rightarrow> err option \<times> lease list" where
  \<comment> \<open>the closure given to the notifier: \<open>leases = append(leases, memberLeases...)\<close>\<close>
  "leases_hook h name server leases =
     (case GetNetworkLeases h server name of
        Inl e \<Rightarrow> (Some e, leases)
      | Inr memberLeases \<Rightarrow> (None, leases @ memberLeases))"

record leases_request =
  lr_name :: string
  lr_project :: string
  lr_isClusterNotification :: bool

definition networkLeasesGet ::
  "env \<Rightarrow> host \<Rightarrow> leases_request \<Rightarrow> world \<Rightarrow> panic + lease list response" where
  "networkLeasesGet env h r w =
     (case doNetworkGet env h w (lr_name r) of
        Inl e \<Rightarrow> Inr (SmartError e)
      | Inr n \<Rightarrow>
          if \<not> n_managed n then Inr NotFound
          else if n_type n \<noteq> ''bridge'' then Inr NotFound
          else
            (case (if \<not> lr_isClusterNotification r
                   then (case LoadByProject h (lr_project r) of
                           Inl e \<Rightarrow> Inl e
                         | Inr instances \<Rightarrow> Inr (static_leases h (lr_name r) instances))
                   else Inr ([], [])) of
               Inl e \<Rightarrow> Inr (SmartError e)
             | Inr (leases, projectMacs) \<Rightarrow>
                 (case GetLocalNodeName env of
                    Inl e \<Rightarrow> Inr (SmartError e)
                  | Inr serverName \<Rightarrow>
                      (let leaseFile = ''networks/'' @ lr_name r @ ''/dnsmasq.leases'' in
                       if \<not> PathExists h leaseFile then Inr (SyncResponse leases)
                       else
                         (case ReadFile h leaseFile of
                            Inl e \<Rightarrow> Inr (SmartError e)
                          | Inr content \<Rightarrow>
                              (case dynamic_leases h serverName (Split_nl content) leases of
                                 Inl p \<Rightarrow> Inl p
                               | Inr leases1 \<Rightarrow>
                                   if \<not> lr_isClusterNotification r then
                                     (case notifier_fault env of
                                        Some e \<Rightarrow> Inr (SmartError e)
                                      | None \<Rightarrow>
                                          (case notifier (leases_hook h (lr_name r)) (alivePeers h) leases1 of
                                             (Some e, leases2) \<Rightarrow> Inr (SmartError e)
                                           | (None, leases2) \<Rightarrow>
                                               Inr (SyncResponse
                                                 (filter (\<lambda>l. StringInSlice (l_hwaddr l) projectMacs) leases2))))
                                   else Inr (SyncResponse leases1)))))))"

section \<open>Daemon startup\<close>

fun startup_loop :: "env \<Rightarrow> string list \<Rightarrow> world \<Rightarrow> err option \<times> world" where
  \<comment> \<open>"Bring them all up"\<close>
  "startup_loop env [] w = (None, w)"
| "startup_loop env (name # rest) w =
     (case LoadByName env w name of
        Inl e \<Rightarrow> (Some e, w)
      | Inr n \<Rightarrow>
          (case drv_Validate env n (d_config n) w of
             (Some e, w1) \<Rightarrow>
               startup_loop env rest (emit (LoggerError ''Failed to validate network'' name) w1)
           | (None, w1) \<Rightarrow>
               (case drv_Start env n w1 of
                  (Some e, w2) \<Rightarrow>
                    startup_loop env rest (emit (LoggerError ''Failed to bring up network'' name) w2)
                | (None, w2) \<Rightarrow> startup_loop env rest w2)))"

definition networkStartup :: "env \<Rightarrow> world \<Rightarrow> err option \<times> world" where
  "networkStartup env w =
     (case GetNonPendingNetworks env w of
        Inl e \<Rightarrow> (Some e, w)
      | Inr networks \<Rightarrow> startup_loop env networks w)"

section \<open>Example deployments\<close>

text \<open>A cluster of two members, \<open>node1\<close> (the local node) and \<open>node2\<close>, in which no call
  fails, and a single-node deployment. The node-specific config keys are those of
  bridges with external interfaces and of networks with a parent interface.\<close>

definition env2 :: env where
  "env2 =
     \<lparr>NodeSpecificNetworkConfig = [''bridge.external_interfaces'', ''parent''],
      localNodeName = ''node1'',
      memberCount = Inr 2,
      clusterEnabled = Inr True,
      hostInterfaces = Inr [''lo'', ''eth0''],
      db_fault = (\<lambda>op name. None),
      ValidateName = (\<lambda>name typ. None),
      FillConfig = (\<lambda>typ conf. Inr conf),
      load_fault = (\<lambda>name. None),
      validate_fault = (\<lambda>name conf. None),
      create_fault = (\<lambda>name cn. None),
      start_fault = (\<lambda>name. None),
      delete_fault = (\<lambda>name cn. None),
      update_fault = (\<lambda>name conf. None),
      isUsed = (\<lambda>name. Inr False),
      notifier_fault = None,
      peers = [''node2''],
      getServer_fault = (\<lambda>server. None),
      peer_create_fault = (\<lambda>server conf. None),
      peer_delete_fault = (\<lambda>server. None)\<rparr>"

definition env1 :: env where
  "env1 = env2\<lparr>memberCount := Inr 1, clusterEnabled := Inr False, peers := []\<rparr>"

definition host0 :: host where
  "host0 =
     \<lparr>InterfaceByName = (\<lambda>name. if name = ''lo'' then Some True
                                 else if name \<in> {''eth0'', ''br0''} then Some False else None),
      PathExists = (\<lambda>path. False),
      BridgeExists = (\<lambda>name. False),
      LoadFromAllProjects = Inr [],
      IsInUseByInstance = (\<lambda>i name. Inr False),
      GetProfiles = Inr [],
      IsInUseByProfile = (\<lambda>p name. Inr False),
      LoadByProject = (\<lambda>project. Inr []),
      NICType = (\<lambda>dev. Inr (cfg_get dev ''nictype'')),
      ReadFile = (\<lambda>path. Inl ErrNotExist),
      GetMACSlice = (\<lambda>hwaddr. [hwaddr]),
      alivePeers = [],
      GetNetworkLeases = (\<lambda>server name. Inr []),
      EtagHash = (\<lambda>(name, managed, typ, descr, conf). name @ typ @ descr @ concat (map (\<lambda>(k, v). k @ v) conf))\<rparr>"

definition world0 :: world where
  "world0 = \<lparr>db = [], heap = (\<lambda>r. []), log = []\<rparr>"

definition br1_pending :: netrow where
  \<comment> \<open>\<open>br1\<close> after \<open>POST /networks?target=node1\<close> and \<open>POST /networks?target=node2\<close>\<close>
  "br1_pending =
     \<lparr>nw_type = ''bridge'', nw_description = [], nw_status = Pending, nw_global = [],
      nw_nodes = [(''node1'', [(''bridge.external_interfaces'', ''eth1'')]), (''node2'', [])]\<rparr>"

definition br0_created :: netrow where
  "br0_created =
     \<lparr>nw_type = ''bridge'', nw_description = [], nw_status = Created,
      nw_global = [(''ipv4.address'', ''10.0.0.1/24'')],
      nw_nodes = [(''node1'', [(''bridge.external_interfaces'', ''eth1'')]), (''node2'', [])]\<rparr>"

definition world_br1 :: world where
  "world_br1 = world0\<lparr>db := [(''br1'', br1_pending)]\<rparr>"

definition world_br0 :: world where
  "world_br0 = world0\<lparr>db := [(''br0'', br0_created)]\<rparr>"

definition promote_br1 :: post_request where
  \<comment> \<open>\<open>POST /1.0/networks {"name":"br1","type":"bridge"}\<close>\<close>
  "promote_br1 =
     \<lparr>pr_body = Some \<lparr>nb_name = ''br1'', nb_description = [], nb_type = ''bridge'', nb_config = None\<rparr>,
      pr_isClusterNotification = False, pr_target = []\<rparr>"

definition notify_br0 :: post_request where
  \<comment> \<open>the notification a peer receives for \<open>br0\<close>\<close>
  "notify_br0 =
     \<lparr>pr_body = Some \<lparr>nb_name = ''br0'', nb_description = [], nb_type = ''bridge'', nb_config = None\<rparr>,
      pr_isClusterNotification = True, pr_target = []\<rparr>"

definition create_eth0 :: post_request where
  \<comment> \<open>\<open>POST /1.0/networks {"name":"eth0","type":"bridge"}\<close>\<close>
  "create_eth0 =
     \<lparr>pr_body = Some \<lparr>nb_name = ''eth0'', nb_description = [], nb_type = ''bridge'', nb_config = None\<rparr>,
      pr_isClusterNotification = False, pr_target = []\<rparr>"

definition create_br5 :: post_request where
  \<comment> \<open>\<open>POST /1.0/networks {"name":"br5","type":"bridge","config":{"ipv4.address":"10.5.0.1/24"}}\<close>\<close>
  "create_br5 =
     \<lparr>pr_body = Some \<lparr>nb_name = ''br5'', nb_description = [], nb_type = ''bridge'',
                       nb_config = Some [(''ipv4.address'', ''10.5.0.1/24'')]\<rparr>,
      pr_isClusterNotification = False, pr_target = []\<rparr>"

definition start_fails :: "env \<Rightarrow> env" where
  "start_fails env = env\<lparr>start_fault := (\<lambda>name. Some (ErrOther ''start failed''))\<rparr>"

definition node2_fails :: "env \<Rightarrow> env" where
  "node2_fails env = env\<lparr>peer_create_fault := (\<lambda>server conf. Some (ErrOther ''peer failed''))\<rparr>"

definition load_fails :: "env \<Rightarrow> env" where
  "load_fails env = env\<lparr>load_fault := (\<lambda>name. Some (ErrOther ''load failed''))\<rparr>"

definition inst_c1 :: inst where
  \<comment> \<open>an instance with a bridged NIC on \<open>br0\<close> that has a static address and no MAC\<close>
  "inst_c1 =
     \<lparr>i_name = ''c1'', i_project = ''default'', i_location = ''node1'',
      i_devices = [(''eth0'', [(''type'', ''nic''), (''nictype'', ''bridged''), (''parent'', ''br0''),
                              (''ipv4.address'', ''10.0.0.2'')])],
      i_localConfig = []\<rparr>"

definition inst_c2 :: inst where
  "inst_c2 =
     \<lparr>i_name = ''c2'', i_project = ''default'', i_location = ''node1'',
      i_devices = [(''eth0'', [(''type'', ''nic''), (''nictype'', ''bridged''), (''parent'', ''br0''),
                              (''ipv4.address'', ''10.0.0.3'')])],
      i_localConfig = [(''volatile.eth0.hwaddr'', ''00:16:3e:aa:bb:cc'')]\<rparr>"

definition host_c1 :: host where
  \<comment> \<open>no lease file on this node\<close>
  "host_c1 = host0\<lparr>LoadByProject := (\<lambda>project. Inr [inst_c1])\<rparr>"

definition host_leases :: "string \<Rightarrow> host" where
  \<comment> \<open>the lease file of \<open>br0\<close> has the given content\<close>
  "host_leases content =
     host0\<lparr>LoadByProject := (\<lambda>project. Inr [inst_c2]),
           PathExists := (\<lambda>path. path = ''networks/br0/dnsmasq.leases''),
           ReadFile := (\<lambda>path. Inr content)\<rparr>"

definition leases_br0 :: leases_request where
  "leases_br0 = \<lparr>lr_name = ''br0'', lr_project = ''default'', lr_isClusterNotification = False\<rparr>"

section \<open>The specification's words\<close>

definition spec_realization :: "env \<Rightarrow> driver \<Rightarrow> bool \<Rightarrow> event list" where
  \<comment> \<open>Section 4.5 of the specification, case (1): validate the full config, invoke
     \<open>driver.create\<close> then \<open>driver.start\<close>; on start failure invoke \<open>driver.delete\<close>.
     The calls made on a loaded driver, given which of them fail.\<close>
  "spec_realization env n cn =
     DrvValidate (d_name n) (d_config n) #
       (if validate_fault env (d_name n) (d_config n) \<noteq> None then []
        else DrvCreate (d_name n) cn #
          (if create_fault env (d_name n) cn \<noteq> None then []
           else DrvStart (d_name n) #
             (if start_fault env (d_name n) \<noteq> None then [DrvDelete (d_name n) cn] else [])))"

definition accepted_body :: "env \<Rightarrow> networks_body \<Rightarrow> bool" where
  \<comment> \<open>the request passes the sanity checks of \<open>networksPost\<close>: a name, a valid name, a
     known type\<close>
  "accepted_body env b =
     (nb_name b \<noteq> [] \<and> ValidateName env (nb_name b) (np_type (post_req_of b)) = None
      \<and> np_type (post_req_of b) \<in> {''bridge'', ''macvlan'', ''sriov''})"

section \<open>Properties\<close>

subsection \<open>Cluster promotion: a failed local start\<close>

text \<open>
  C1. In the cluster-promotion path the network is marked created before the local
  driver calls and before the peer fan-out, and a failure after that is to leave the
  record in place with status errored. Evaluated on the two-member cluster with \<open>br1\<close>
  pending on both members, where the local driver's \<open>Start\<close> fails: the network is marked
  created first, \<open>doNetworksCreate\<close> then calls \<open>n.Delete(false)\<close>, which removes the
  database record, and the revert step finds no record to mark errored. The record of
  \<open>br1\<close> is gone.
\<close>

theorem promote_start_failure_deletes_record:
  "fst (networksPost (start_fails env2) promote_br1 world_br1) = SmartError (ErrOther ''start failed'')
   \<and> db (snd (networksPost (start_fails env2) promote_br1 world_br1)) = []
   \<and> log (snd (networksPost (start_fails env2) promote_br1 world_br1)) =
       [DbCreateNetworkConfig ''br1'' [], DbNetworkCreated ''br1'',
        DrvValidate ''br1'' [(''bridge.external_interfaces'', ''eth1'')],
        DrvCreate ''br1'' False, DrvStart ''br1'', DrvDelete ''br1'' False,
        DbDeleteNetwork ''br1'']"
  by code_simp

subsection \<open>Cluster promotion: the config sent to a peer\<close>

text \<open>
  C2. Each peer is to be notified with the global config merged with its own
  node-specific config only. Evaluated on the two-member cluster where \<open>node1\<close> (the local
  node) defined \<open>bridge.external_interfaces = eth1\<close> and \<open>node2\<close> defined no key: the
  struct copy \<open>nodeReq := req\<close> shares the map \<open>req.Config\<close>, so the key written for the
  local node is still there when the closure runs, and \<open>node2\<close> is sent the node-specific
  key of \<open>node1\<close>.
\<close>

theorem promote_sends_local_key_to_peer:
  "log (snd (networksPost env2 promote_br1 world_br1)) =
     [DbCreateNetworkConfig ''br1'' [], DbNetworkCreated ''br1'',
      DrvValidate ''br1'' [(''bridge.external_interfaces'', ''eth1'')],
      DrvCreate ''br1'' False, DrvStart ''br1'',
      PeerCreateNetwork ''node2'' ''br1'' [(''bridge.external_interfaces'', ''eth1'')]]
   \<and> StringInSlice ''bridge.external_interfaces'' (NodeSpecificNetworkConfig env2)
   \<and> node_config (nw_nodes br1_pending) ''node2'' = []
   \<and> node_config (nw_nodes br1_pending) (localNodeName env2) = [(''bridge.external_interfaces'', ''eth1'')]"
  by code_simp

subsection \<open>Basic facts\<close>

lemma db_emit [simp]: "db (emit e w) = db w"
  and heap_emit [simp]: "heap (emit e w) = heap w"
  and log_emit [simp]: "log (emit e w) = log w @ [e]"
  by (simp_all add: emit_def)

lemma LoadByName_db: "db w' = db w \<Longrightarrow> LoadByName env w' name = LoadByName env w name"
  by (simp add: LoadByName_def)

lemma LoadByName_name: "LoadByName env w name = Inr n \<Longrightarrow> d_name n = name"
  by (auto simp: LoadByName_def split: option.splits if_splits)

lemma np_name_post_req_of [simp]: "np_name (post_req_of b) = nb_name b"
  by (simp add: post_req_of_def)

lemma db_post_world [simp]: "db (post_world b w) = db w"
  and log_post_world [simp]: "log (post_world b w) = log w"
  by (simp_all add: post_world_def)

lemma networksPost_accepted:
  assumes "pr_body r = Some b" "accepted_body env b"
  shows "networksPost env r w = networksPost_dispatch env r (post_req_of b) (post_world b w)"
  using assms by (simp add: networksPost_def accepted_body_def Let_def)

lemma networksPost_rejected:
  assumes "pr_body r = None \<or> (\<exists>b. pr_body r = Some b \<and> \<not> accepted_body env b)"
  shows "db (snd (networksPost env r w)) = db w \<and> log (snd (networksPost env r w)) = log w"
proof (cases "pr_body r")
  case None
  then show ?thesis by (simp add: networksPost_def)
next
  case (Some b)
  with assms have "\<not> accepted_body env b" by simp
  then show ?thesis using Some
    by (cases "ValidateName env (nb_name b) (np_type (post_req_of b))")
       (auto simp: networksPost_def accepted_body_def Let_def)
qed

subsection \<open>POST /networks as a cluster notification\<close>

lemma drv_Delete_notification:
  "drv_Delete env n True w = (delete_fault env (d_name n) True, emit (DrvDelete (d_name n) True) w)"
  by (simp add: drv_Delete_def Let_def split: option.splits)

lemma doNetworksCreate_notification:
  assumes "LoadByName env w (np_name req) = Inr n"
  shows "db (snd (doNetworksCreate env req True w)) = db w
       \<and> heap (snd (doNetworksCreate env req True w)) = heap w
       \<and> log (snd (doNetworksCreate env req True w)) = log w @ spec_realization env n True"
  using assms
  by (auto simp: doNetworksCreate_def drv_Validate_def drv_Create_def drv_Start_def
      drv_Delete_notification spec_realization_def split: option.splits)

lemma doNetworksCreate_load_failure:
  "LoadByName env w (np_name req) = Inl e \<Longrightarrow> doNetworksCreate env req cn w = (Some e, w)"
  by (simp add: doNetworksCreate_def)

lemma networksPost_notification_accepted:
  assumes "pr_isClusterNotification r" "pr_body r = Some b" "accepted_body env b"
  shows "snd (networksPost env r w) = snd (doNetworksCreate env (post_req_of b) True (post_world b w))"
  using assms(1)
  by (simp add: networksPost_accepted[OF assms(2,3)] networksPost_dispatch_def
      split: prod.split option.split)

text \<open>
  C3. For every \<open>POST /networks\<close> that carries the cluster-notification header, the
  handler writes nothing to the database: the database after the request is the database
  before it. The handler either makes no driver call (the request is rejected, or the
  driver does not load), or it makes exactly the calls of the specification on the loaded
  driver: validate the driver's full config, \<open>create(true)\<close>, \<open>start()\<close>, and
  \<open>delete(true)\<close> when the start failed. For a request that passes the sanity checks and
  whose driver loads, it is the latter.
\<close>

theorem notification_post_no_db_write:
  assumes "pr_isClusterNotification r"
  shows "db (snd (networksPost env r w)) = db w
       \<and> (log (snd (networksPost env r w)) = log w
          \<or> (\<exists>b n. pr_body r = Some b \<and> LoadByName env w (nb_name b) = Inr n
                \<and> log (snd (networksPost env r w)) = log w @ spec_realization env n True))
       \<and> (\<forall>b n. pr_body r = Some b \<and> accepted_body env b \<and> LoadByName env w (nb_name b) = Inr n
            \<longrightarrow> log (snd (networksPost env r w)) = log w @ spec_realization env n True)"
proof (cases "\<exists>b. pr_body r = Some b \<and> accepted_body env b")
  case False
  then have "pr_body r = None \<or> (\<exists>b. pr_body r = Some b \<and> \<not> accepted_body env b)"
    by (cases "pr_body r") auto
  from networksPost_rejected[OF this] False show ?thesis by auto
next
  case True
  then obtain b where b: "pr_body r = Some b" "accepted_body env b" by blast
  let ?w0 = "post_world b w"
  have load: "LoadByName env ?w0 (nb_name b) = LoadByName env w (nb_name b)"
    by (rule LoadByName_db) simp
  note eq = networksPost_notification_accepted[OF assms b]
  show ?thesis
  proof (cases "LoadByName env w (nb_name b)")
    case (Inl e)
    then have "doNetworksCreate env (post_req_of b) True ?w0 = (Some e, ?w0)"
      using load by (simp add: doNetworksCreate_load_failure)
    then show ?thesis using b Inl by (simp add: eq)
  next
    case (Inr n)
    then have "LoadByName env ?w0 (np_name (post_req_of b)) = Inr n" using load by simp
    from doNetworksCreate_notification[OF this] show ?thesis
      using b Inr by (simp add: eq)
  qed
qed

theorem notification_post_no_db_write_witness:
  "pr_isClusterNotification notify_br0
   \<and> db (snd (networksPost (start_fails env2) notify_br0 world_br0)) = db world_br0
   \<and> log (snd (networksPost (start_fails env2) notify_br0 world_br0)) =
       [DrvValidate ''br0'' [(''ipv4.address'', ''10.0.0.1/24''), (''bridge.external_interfaces'', ''eth1'')],
        DrvCreate ''br0'' True, DrvStart ''br0'', DrvDelete ''br0'' True]"
proof -
  have h: "pr_isClusterNotification notify_br0" by (simp add: notify_br0_def)
  have l: "log (snd (networksPost (start_fails env2) notify_br0 world_br0)) =
       [DrvValidate ''br0'' [(''ipv4.address'', ''10.0.0.1/24''), (''bridge.external_interfaces'', ''eth1'')],
        DrvCreate ''br0'' True, DrvStart ''br0'', DrvDelete ''br0'' True]"
    by code_simp
  from notification_post_no_db_write[OF h, of "start_fails env2" world_br0]
  have "db (snd (networksPost (start_fails env2) notify_br0 world_br0)) = db world_br0" by blast
  with h l show ?thesis by simp
qed

end
